theory Spec2Isabelle
  imports Main
begin

section \<open>JavaScript values used by the tool handlers of server.ts\<close>

text \<open>
  A JavaScript string is kept as a \<^typ>\<open>string\<close>. The only characters the handlers
  inspect are line feed (U+000A) and carriage return (U+000D); neither occurs inside
  the encoding of another character, so the line structure is the same whether the
  elements are read as UTF-16 code units or as bytes of UTF-8.

  A value that may be \<^verbatim>\<open>undefined\<close> is an \<^typ>\<open>'a option\<close>, \<^const>\<open>None\<close> standing
  for \<^verbatim>\<open>undefined\<close>.
\<close>

definition LF :: char where
  "LF = CHR 0x0A"

definition CR :: char where
  "CR = CHR 0x0D"

text \<open>
  What a \<^verbatim>\<open>catch (error)\<close> clause receives: an instance of \<^verbatim>\<open>Error\<close> with its
  \<^verbatim>\<open>message\<close>, or any other value, kept with the string \<^verbatim>\<open>String(error)\<close> gives.
\<close>

datatype thrown = Error_instance string | Other_thrown string

text \<open>\<^verbatim>\<open>error instanceof Error ? error.message : String(error)\<close>\<close>

fun error_message :: "thrown \<Rightarrow> string" where
  "error_message (Error_instance message) = message"
| "error_message (Other_thrown rendering) = rendering"

text \<open>
  An awaited promise is a sum: \<^const>\<open>Inl\<close> the value it rejected with (which
  \<^verbatim>\<open>await\<close> throws), \<^const>\<open>Inr\<close> the value it resolved to.
\<close>

type_synonym 'a awaited = "thrown + 'a"

text \<open>
  \<^verbatim>\<open>CallToolResult\<close>. \<open>Content p\<close> is \<^verbatim>\<open>{ content: [{ type: "text", text }] }\<close>
  where \<^verbatim>\<open>text\<close> is \<open>p\<close> itself for the two content tools and
  \<^verbatim>\<open>JSON.stringify(p, null, 2)\<close> for the others; \<open>IsError t\<close> is
  \<^verbatim>\<open>{ content: [{ type: "text", text: t }], isError: true }\<close>.
\<close>

datatype 'p CallToolResult = Content 'p | IsError string

text \<open>Truthiness of a value of type \<^verbatim>\<open>string | undefined\<close>.\<close>

fun truthy :: "string option \<Rightarrow> bool" where
  "truthy None = False"
| "truthy (Some s) = (s \<noteq> [])"

section \<open>The API client\<close>

text \<open>
  The handlers call \<^verbatim>\<open>getPageContent\<close> of \<^verbatim>\<open>./client/helpers\<close> and the generated
  SDK functions of \<^verbatim>\<open>./client/sdk.gen\<close>. They are collaborators passed to the model:
  each takes the state of the world (the workspace behind the API) and the
  options object it is called with, and returns what the awaited promise settles to
  together with the new state. \<open>'d\<close> is the type of \<^verbatim>\<open>resp.data\<close>, \<open>'v\<close> the type
  of a cell value. The records below are the options objects, without the members that
  are the same in every call (\<^verbatim>\<open>throwOnError: true\<close>, and \<^verbatim>\<open>type: "canvas"\<close> and
  \<^verbatim>\<open>format: "markdown"\<close> of a page's content).
\<close>

record list_pages_query =
  limit :: "int option"
  pageToken :: "string option"

record list_pages_options =
  lp_docId :: string
  query :: list_pages_query

record create_page_options =
  cp_docId :: string
  cp_name :: string
  cp_content :: "string option"

record 'v cell =
  column :: string
  cell_value :: 'v

record 'v update_row_options =
  ur_docId :: string
  ur_tableIdOrName :: string
  ur_rowIdOrName :: string
  cells :: "'v cell list"

record ('s, 'd, 'v) client =
  getPageContent :: "'s \<Rightarrow> string \<Rightarrow> string \<Rightarrow> string option awaited \<times> 's"
  listPages :: "'s \<Rightarrow> list_pages_options \<Rightarrow> 'd awaited \<times> 's"
  createPage :: "'s \<Rightarrow> create_page_options \<Rightarrow> 'd awaited \<times> 's"
  updateRow :: "'s \<Rightarrow> 'v update_row_options \<Rightarrow> 'd awaited \<times> 's"

text \<open>
  Every handler is \<^verbatim>\<open>try { ... return success } catch (error) { return failure }\<close>.
  The \<^verbatim>\<open>try\<close> block is modelled as a computation that ends in \<^const>\<open>Inl\<close> of what
  it threw or \<^const>\<open>Inr\<close> of the payload it returns; \<open>handler_result\<close> is the
  rest: the \<^verbatim>\<open>catch\<close> clause turns the thrown value into one message, prefixed with
  the name of the operation.
\<close>

definition caught :: "string \<Rightarrow> thrown \<Rightarrow> 'p CallToolResult" where
  "caught prefix err = IsError (prefix @ error_message err)"

fun handler_result :: "string \<Rightarrow> (thrown + 'p) \<times> 's \<Rightarrow> 'p CallToolResult \<times> 's" where
  "handler_result prefix (Inr payload, s) = (Content payload, s)"
| "handler_result prefix (Inl err, s) = (caught prefix err, s)"

section \<open>coda_list_pages\<close>

text \<open>\<^verbatim>\<open>const listLimit = nextPageToken ? undefined : limit;\<close>\<close>

definition listLimit :: "int option \<Rightarrow> string option \<Rightarrow> int option" where
  "listLimit lim nextPageToken = (if truthy nextPageToken then None else lim)"

text \<open>\<^verbatim>\<open>nextPageToken ?? undefined\<close>\<close>

definition nullish_undefined :: "'a option \<Rightarrow> 'a option" where
  "nullish_undefined x = (case x of None \<Rightarrow> None | Some v \<Rightarrow> Some v)"

text \<open>The options object \<^verbatim>\<open>listPages\<close> is called with.\<close>

definition list_pages_call :: "string \<Rightarrow> int option \<Rightarrow> string option \<Rightarrow> list_pages_options" where
  "list_pages_call docId lim nextPageToken =
     \<lparr>lp_docId = docId,
      query = \<lparr>limit = listLimit lim nextPageToken,
               pageToken = nullish_undefined nextPageToken\<rparr>\<rparr>"

definition coda_list_pages ::
  "('s, 'd, 'v) client \<Rightarrow> 's \<Rightarrow> string \<Rightarrow> int option \<Rightarrow> string option \<Rightarrow> 'd CallToolResult \<times> 's"
where
  "coda_list_pages c s docId lim nextPageToken =
     handler_result ''Failed to list pages : ''
       (listPages c s (list_pages_call docId lim nextPageToken))"

section \<open>coda_get_page_content\<close>

text \<open>
  The \<^verbatim>\<open>try\<close> block: await the content, throw when it is \<^verbatim>\<open>undefined\<close>
  (\<^verbatim>\<open>content === undefined\<close>), return it otherwise.
\<close>

definition get_page_content_body ::
  "('s, 'd, 'v) client \<Rightarrow> 's \<Rightarrow> string \<Rightarrow> string \<Rightarrow> (thrown + string) \<times> 's"
where
  "get_page_content_body c s docId pageIdOrName =
     (case getPageContent c s docId pageIdOrName of
        (Inl err, s') \<Rightarrow> (Inl err, s')
      | (Inr content, s') \<Rightarrow>
          (case content of
             None \<Rightarrow> (Inl (Error_instance ''Unknown error has occurred''), s')
           | Some str \<Rightarrow> (Inr str, s')))"

definition coda_get_page_content ::
  "('s, 'd, 'v) client \<Rightarrow> 's \<Rightarrow> string \<Rightarrow> string \<Rightarrow> string CallToolResult \<times> 's"
where
  "coda_get_page_content c s docId pageIdOrName =
     handler_result ''Failed to get page content : ''
       (get_page_content_body c s docId pageIdOrName)"

section \<open>coda_peek_page\<close>

text \<open>
  \<^verbatim>\<open>content.split(/\r?\n/)\<close>. The pattern matches a line feed, or a carriage return
  followed at once by a line feed; it never matches the empty string, so \<^verbatim>\<open>split\<close>
  cuts the string at every match, leftmost first, and the empty string gives one empty
  piece. \<open>extend_first c ps\<close> puts \<open>c\<close> in front of the piece being read.
\<close>

fun extend_first :: "char \<Rightarrow> string list \<Rightarrow> string list" where
  "extend_first c [] = [[c]]"
| "extend_first c (p # ps) = (c # p) # ps"

fun split_line_breaks :: "string \<Rightarrow> string list" where
  "split_line_breaks [] = [[]]"
| "split_line_breaks [c] = (if c = LF then [[], []] else [[c]])"
| "split_line_breaks (c # d # cs) =
     (if c = LF then [] # split_line_breaks (d # cs)
      else if c = CR \<and> d = LF then [] # split_line_breaks cs
      else extend_first c (split_line_breaks (d # cs)))"

text \<open>
  \<^verbatim>\<open>.slice(0, numLines)\<close>: a negative end counts from the end of the array, any other
  end is clamped to the length.
\<close>

definition slice_from_start :: "'a list \<Rightarrow> int \<Rightarrow> 'a list" where
  "slice_from_start xs fin =
     (if fin < 0 then take (nat (int (length xs) + fin)) xs else take (nat fin) xs)"

text \<open>\<^verbatim>\<open>.join(sep)\<close>\<close>

fun join :: "string \<Rightarrow> string list \<Rightarrow> string" where
  "join sep [] = []"
| "join sep [x] = x"
| "join sep (x # y # ys) = x @ sep @ join sep (y # ys)"

text \<open>
  The \<^verbatim>\<open>try\<close> block. \<^verbatim>\<open>!content\<close> holds for \<^verbatim>\<open>undefined\<close> and for the empty
  string.
\<close>

definition peek_page_body ::
  "('s, 'd, 'v) client \<Rightarrow> 's \<Rightarrow> string \<Rightarrow> string \<Rightarrow> int \<Rightarrow> (thrown + string) \<times> 's"
where
  "peek_page_body c s docId pageIdOrName numLines =
     (case getPageContent c s docId pageIdOrName of
        (Inl err, s') \<Rightarrow> (Inl err, s')
      | (Inr content, s') \<Rightarrow>
          (case content of
             None \<Rightarrow> (Inl (Error_instance ''Unknown error has occurred''), s')
           | Some str \<Rightarrow>
               if str = [] then (Inl (Error_instance ''Unknown error has occurred''), s')
               else (Inr (join [LF] (slice_from_start (split_line_breaks str) numLines)), s')))"

definition coda_peek_page ::
  "('s, 'd, 'v) client \<Rightarrow> 's \<Rightarrow> string \<Rightarrow> string \<Rightarrow> int \<Rightarrow> string CallToolResult \<times> 's"
where
  "coda_peek_page c s docId pageIdOrName numLines =
     handler_result ''Failed to peek page : ''
       (peek_page_body c s docId pageIdOrName numLines)"

section \<open>coda_duplicate_page\<close>

text \<open>
  The \<^verbatim>\<open>try\<close> block: await the content of the source page, then await
  \<^verbatim>\<open>createPage\<close> with that content, whatever it is.
\<close>

definition duplicate_page_call :: "string \<Rightarrow> string \<Rightarrow> string option \<Rightarrow> create_page_options" where
  "duplicate_page_call docId newName pageContent =
     \<lparr>cp_docId = docId, cp_name = newName, cp_content = pageContent\<rparr>"

definition duplicate_page_body ::
  "('s, 'd, 'v) client \<Rightarrow> 's \<Rightarrow> string \<Rightarrow> string \<Rightarrow> string \<Rightarrow> (thrown + 'd) \<times> 's"
where
  "duplicate_page_body c s docId pageIdOrName newName =
     (case getPageContent c s docId pageIdOrName of
        (Inl err, s') \<Rightarrow> (Inl err, s')
      | (Inr pageContent, s') \<Rightarrow> createPage c s' (duplicate_page_call docId newName pageContent))"

definition coda_duplicate_page ::
  "('s, 'd, 'v) client \<Rightarrow> 's \<Rightarrow> string \<Rightarrow> string \<Rightarrow> string \<Rightarrow> 'd CallToolResult \<times> 's"
where
  "coda_duplicate_page c s docId pageIdOrName newName =
     handler_result ''Failed to duplicate page : ''
       (duplicate_page_body c s docId pageIdOrName newName)"

section \<open>coda_bulk_update_rows\<close>

text \<open>
  One element of \<^verbatim>\<open>updates\<close>; \<open>entries\<close> is \<^verbatim>\<open>Object.entries(update.values)\<close>.
\<close>

record 'v row_update =
  rowIdOrName :: string
  entries :: "(string \<times> 'v) list"

text \<open>
  One element of \<^verbatim>\<open>results\<close>: \<^verbatim>\<open>{ rowId, success: true, data }\<close> or
  \<^verbatim>\<open>{ rowId, success: false, error }\<close>; a key the object lacks is \<^const>\<open>None\<close>.
\<close>

record 'd row_result =
  rowId :: string
  success :: bool
  data :: "'d option"
  error :: "string option"

text \<open>The object the handler serialises.\<close>

record 'd bulk_report =
  results :: "'d row_result list"
  totalUpdates :: nat
  successful :: nat
  failed :: nat

definition update_row_call :: "string \<Rightarrow> string \<Rightarrow> 'v row_update \<Rightarrow> 'v update_row_options" where
  "update_row_call docId tableIdOrName update =
     \<lparr>ur_docId = docId, ur_tableIdOrName = tableIdOrName, ur_rowIdOrName = rowIdOrName update,
      cells = map (\<lambda>(col, v). \<lparr>column = col, cell_value = v\<rparr>) (entries update)\<rparr>"

text \<open>
  What the inner \<^verbatim>\<open>try\<close>/\<^verbatim>\<open>catch\<close> pushes for one update, given what the awaited
  \<^verbatim>\<open>updateRow\<close> settled to.
\<close>

fun pushed :: "'v row_update \<Rightarrow> 'd awaited \<Rightarrow> 'd row_result" where
  "pushed update (Inr resp_data) =
     \<lparr>rowId = rowIdOrName update, success = True, data = Some resp_data, error = None\<rparr>"
| "pushed update (Inl err) =
     \<lparr>rowId = rowIdOrName update, success = False, data = None,
      error = Some (error_message err)\<rparr>"

text \<open>
  \<^verbatim>\<open>for (const update of updates) { try { ... } catch (error) { ... } }\<close>, with the
  array \<^verbatim>\<open>results\<close> as an accumulator.
\<close>

fun bulk_loop ::
  "('s, 'd, 'v) client \<Rightarrow> string \<Rightarrow> string \<Rightarrow> 'v row_update list \<Rightarrow> 'd row_result list \<Rightarrow> 's
     \<Rightarrow> 'd row_result list \<times> 's"
where
  "bulk_loop c docId tableIdOrName [] rs s = (rs, s)"
| "bulk_loop c docId tableIdOrName (update # rest) rs s =
     (case updateRow c s (update_row_call docId tableIdOrName update) of
        (settled, s') \<Rightarrow> bulk_loop c docId tableIdOrName rest (rs @ [pushed update settled]) s')"

text \<open>
  The outer \<^verbatim>\<open>try\<close> block: every statement that can throw stands inside the inner
  \<^verbatim>\<open>try\<close>, so the block always returns the report.
\<close>

definition bulk_update_rows_body ::
  "('s, 'd, 'v) client \<Rightarrow> 's \<Rightarrow> string \<Rightarrow> string \<Rightarrow> 'v row_update list
     \<Rightarrow> (thrown + 'd bulk_report) \<times> 's"
where
  "bulk_update_rows_body c s docId tableIdOrName updates =
     (case bulk_loop c docId tableIdOrName updates [] s of
        (rs, s') \<Rightarrow>
          (Inr \<lparr>results = rs,
                totalUpdates = length updates,
                successful = length (filter (\<lambda>r. success r) rs),
                failed = length (filter (\<lambda>r. \<not> success r) rs)\<rparr>, s'))"

definition coda_bulk_update_rows ::
  "('s, 'd, 'v) client \<Rightarrow> 's \<Rightarrow> string \<Rightarrow> string \<Rightarrow> 'v row_update list
     \<Rightarrow> 'd bulk_report CallToolResult \<times> 's"
where
  "coda_bulk_update_rows c s docId tableIdOrName updates =
     handler_result ''Failed to bulk update rows : ''
       (bulk_update_rows_body c s docId tableIdOrName updates)"

section \<open>Recording the calls made to the client\<close>

text \<open>
  To state which calls a handler makes, and in which order, a client is wrapped so that
  every call appends an event to a log kept beside the state: the function called, the
  arguments, and what the call settled to. This is what the mocks of the test suite
  record.
\<close>

datatype ('d, 'v) event =
  GetPageContent string string "string option awaited"
| ListPages list_pages_options "'d awaited"
| CreatePage create_page_options "'d awaited"
| UpdateRow "'v update_row_options" "'d awaited"

definition recording ::
  "('s, 'd, 'v) client \<Rightarrow> ('s \<times> ('d, 'v) event list, 'd, 'v) client"
where
  "recording c =
     \<lparr>getPageContent = (\<lambda>(s, log) docId pageIdOrName.
        case getPageContent c s docId pageIdOrName of
          (settled, s') \<Rightarrow> (settled, (s', log @ [GetPageContent docId pageIdOrName settled]))),
      listPages = (\<lambda>(s, log) opts.
        case listPages c s opts of (settled, s') \<Rightarrow> (settled, (s', log @ [ListPages opts settled]))),
      createPage = (\<lambda>(s, log) opts.
        case createPage c s opts of (settled, s') \<Rightarrow> (settled, (s', log @ [CreatePage opts settled]))),
      updateRow = (\<lambda>(s, log) opts.
        case updateRow c s opts of (settled, s') \<Rightarrow> (settled, (s', log @ [UpdateRow opts settled])))\<rparr>"

text \<open>
  A client without state whose answers depend on the arguments only, as
  \<^verbatim>\<open>mockResolvedValue\<close> and \<^verbatim>\<open>mockRejectedValue\<close> set up in the tests.
\<close>

definition mocked ::
  "(string \<Rightarrow> string \<Rightarrow> string option awaited) \<Rightarrow> (list_pages_options \<Rightarrow> 'd awaited)
     \<Rightarrow> (create_page_options \<Rightarrow> 'd awaited) \<Rightarrow> ('v update_row_options \<Rightarrow> 'd awaited)
     \<Rightarrow> (unit, 'd, 'v) client"
where
  "mocked content_of pages_of created_of updated_of =
     \<lparr>getPageContent = (\<lambda>s docId pageIdOrName. (content_of docId pageIdOrName, s)),
      listPages = (\<lambda>s opts. (pages_of opts, s)),
      createPage = (\<lambda>s opts. (created_of opts, s)),
      updateRow = (\<lambda>s opts. (updated_of opts, s))\<rparr>"

section \<open>Reference definitions\<close>

text \<open>
  What the specification asks of the preview, written without the code's functions: the
  content with every carriage return that is followed at once by a line feed dropped, so
  that every line break is one line feed.
\<close>

fun crlf_to_lf :: "string \<Rightarrow> string" where
  "crlf_to_lf [] = []"
| "crlf_to_lf [c] = [c]"
| "crlf_to_lf (c # d # cs) =
     (if c = CR \<and> d = LF then LF # crlf_to_lf cs else c # crlf_to_lf (d # cs))"

text \<open>
  What the specification asks of a batch: every item is attempted, in input order, each
  call starting from the state the one before left, whatever that one settled to.
  \<open>attempt_all\<close> gives what the calls settle to, and the final state.
\<close>

fun attempt_all ::
  "('s, 'd, 'v) client \<Rightarrow> string \<Rightarrow> string \<Rightarrow> 'v row_update list \<Rightarrow> 's \<Rightarrow> 'd awaited list \<times> 's"
where
  "attempt_all c docId tableIdOrName [] s = ([], s)"
| "attempt_all c docId tableIdOrName (update # rest) s =
     (case updateRow c s (update_row_call docId tableIdOrName update) of
        (settled, s') \<Rightarrow>
          (case attempt_all c docId tableIdOrName rest s' of
             (others, s'') \<Rightarrow> (settled # others, s'')))"

fun resolved :: "'a awaited \<Rightarrow> bool" where
  "resolved (Inr x) = True"
| "resolved (Inl err) = False"

definition update_event ::
  "string \<Rightarrow> string \<Rightarrow> 'v row_update \<Rightarrow> 'd awaited \<Rightarrow> ('d, 'v) event"
where
  "update_event docId tableIdOrName update settled =
     UpdateRow (update_row_call docId tableIdOrName update) settled"


subsection \<open>Clients of the test suite\<close>

text \<open>A workspace whose page export settles to \<open>content\<close>; every other call succeeds.\<close>

definition page_with :: "string option awaited \<Rightarrow> (unit, string, int) client" where
  "page_with content =
     mocked (\<lambda>docId pageIdOrName. content) (\<lambda>opts. Inr ''pages'') (\<lambda>opts. Inr ''created'')
       (\<lambda>opts. Inr ''updated'')"

text \<open>A workspace where updating row B is refused and every other row is updated.\<close>

definition row_B_fails :: "(unit, string, int) client" where
  "row_B_fails =
     mocked (\<lambda>docId pageIdOrName. Inr None) (\<lambda>opts. Inr ''pages'') (\<lambda>opts. Inr ''created'')
       (\<lambda>opts. if ur_rowIdOrName opts = ''B'' then Inl (Error_instance ''Row not found'')
               else Inr ''updated'')"

text \<open>A workspace where every call is rejected.\<close>

definition api_down :: "(unit, string, int) client" where
  "api_down =
     mocked (\<lambda>docId pageIdOrName. Inl (Error_instance ''Export failed''))
       (\<lambda>opts. Inl (Error_instance ''Access denied''))
       (\<lambda>opts. Inl (Error_instance ''Create failed''))
       (\<lambda>opts. Inl (Other_thrown ''[object Object]''))"


section \<open>General lemmas\<close>

subsection \<open>The catch clause and the recording client\<close>


lemma snd_handler_result: "snd (handler_result prefix x) = snd x"
  by (cases x, cases "fst x") auto



lemma getPageContent_recording:
  "getPageContent (recording c) (s, log) docId pageIdOrName =
     (fst (getPageContent c s docId pageIdOrName),
      (snd (getPageContent c s docId pageIdOrName),
       log @ [GetPageContent docId pageIdOrName (fst (getPageContent c s docId pageIdOrName))]))"
  by (simp add: recording_def case_prod_beta)

lemma listPages_recording:
  "listPages (recording c) (s, log) opts =
     (fst (listPages c s opts),
      (snd (listPages c s opts), log @ [ListPages opts (fst (listPages c s opts))]))"
  by (simp add: recording_def case_prod_beta)

lemma createPage_recording:
  "createPage (recording c) (s, log) opts =
     (fst (createPage c s opts),
      (snd (createPage c s opts), log @ [CreatePage opts (fst (createPage c s opts))]))"
  by (simp add: recording_def case_prod_beta)

lemma updateRow_recording:
  "updateRow (recording c) (s, log) opts =
     (fst (updateRow c s opts),
      (snd (updateRow c s opts), log @ [UpdateRow opts (fst (updateRow c s opts))]))"
  by (simp add: recording_def case_prod_beta)

subsection \<open>Splitting into lines and joining again\<close>

lemma CR_neq_LF: "CR \<noteq> LF"
  by (simp add: CR_def LF_def)

lemma extend_first_not_Nil: "extend_first c ps \<noteq> []"
  by (cases ps) simp_all

lemma split_line_breaks_not_Nil: "split_line_breaks cs \<noteq> []"
  by (induction cs rule: split_line_breaks.induct) (simp_all add: extend_first_not_Nil)

lemma length_extend_first: "ps \<noteq> [] \<Longrightarrow> length (extend_first c ps) = length ps"
  by (cases ps) simp_all

lemma join_extend_first: "ps \<noteq> [] \<Longrightarrow> join sep (extend_first c ps) = c # join sep ps"
proof (cases ps)
  case Nil
  assume "ps \<noteq> []"
  with Nil show ?thesis by simp
next
  case (Cons p qs)
  then show ?thesis by (cases qs) simp_all
qed

lemma join_Nil_Cons: "ps \<noteq> [] \<Longrightarrow> join sep ([] # ps) = sep @ join sep ps"
  by (cases ps) simp_all

text \<open>
  Splitting and joining with a line feed changes one thing only: a carriage return in
  front of a line feed is dropped. No other character is lost, added or moved.
\<close>

lemma join_split_line_breaks: "join [LF] (split_line_breaks cs) = crlf_to_lf cs"
proof (induction cs rule: split_line_breaks.induct)
  case 1
  show ?case by simp
next
  case (2 c)
  show ?case by simp
next
  case (3 c d cs)
  then show ?case
    by (simp add: join_Nil_Cons join_extend_first split_line_breaks_not_Nil CR_neq_LF)
qed

text \<open>There is one line more than there are line breaks.\<close>

lemma length_split_line_breaks:
  "length (split_line_breaks cs) = Suc (length (filter (\<lambda>c. c = LF) (crlf_to_lf cs)))"
proof (induction cs rule: split_line_breaks.induct)
  case 1
  show ?case by simp
next
  case (2 c)
  show ?case by simp
next
  case (3 c d cs)
  then show ?case
    by (auto simp add: length_extend_first split_line_breaks_not_Nil CR_neq_LF)
qed

text \<open>No line holds a line feed.\<close>

lemma no_LF_in_lines: "l \<in> set (split_line_breaks cs) \<Longrightarrow> LF \<notin> set l"
proof (induction cs arbitrary: l rule: split_line_breaks.induct)
  case 1
  then show ?case by simp
next
  case (2 c)
  then show ?case by (auto split: if_splits)
next
  case (3 c d cs)
  show ?case
  proof (cases "c = LF \<or> (c = CR \<and> d = LF)")
    case True
    with 3 show ?thesis by (auto split: if_splits)
  next
    case False
    obtain p ps where "split_line_breaks (d # cs) = p # ps"
      using split_line_breaks_not_Nil [of "d # cs"] by (cases "split_line_breaks (d # cs)") auto
    with False 3 show ?thesis by (auto split: if_splits)
  qed
qed

text \<open>
  Where the cuts fall: a string without line feed is one line; a line \<open>l\<close> ends at a
  carriage return and line feed, and at a bare line feed (bare: \<open>l\<close> does not end in a
  carriage return); the rest is split on its own. The line is \<open>l\<close> as it stands.
\<close>

lemma split_line_breaks_one_line: "LF \<notin> set l \<Longrightarrow> split_line_breaks l = [l]"
  by (induction l rule: split_line_breaks.induct) auto

lemma split_line_breaks_at_CRLF:
  "LF \<notin> set l \<Longrightarrow> split_line_breaks (l @ CR # LF # rest) = l # split_line_breaks rest"
proof (induction l rule: split_line_breaks.induct)
  case 1
  show ?case by (simp add: CR_neq_LF)
next
  case (2 c)
  then show ?case by (cases rest) (auto simp add: CR_neq_LF)
next
  case (3 c d cs)
  then show ?case by (auto simp add: CR_neq_LF)
qed

lemma split_line_breaks_at_LF:
  "LF \<notin> set l \<Longrightarrow> l = [] \<or> last l \<noteq> CR \<Longrightarrow>
   split_line_breaks (l @ LF # rest) = l # split_line_breaks rest"
proof (induction l rule: split_line_breaks.induct)
  case 1
  show ?case by (cases rest) simp_all
next
  case (2 c)
  then show ?case by (cases rest) (auto simp add: CR_neq_LF)
next
  case (3 c d cs)
  then show ?case by (auto simp add: CR_neq_LF)
qed

lemma slice_from_start_positive: "0 < n \<Longrightarrow> slice_from_start xs n = take (nat n) xs"
  by (simp add: slice_from_start_def)

subsection \<open>The preview of a page that has content\<close>

text \<open>
  When the content is a string that is not empty and \<open>numLines\<close> is positive, the preview
  is the first \<open>numLines\<close> lines of the content, joined by line feeds.
\<close>

lemma peek_page_first_lines:
  assumes "getPageContent c s docId pageIdOrName = (Inr (Some str), s')"
    and "str \<noteq> []" and "0 < numLines"
  shows "coda_peek_page c s docId pageIdOrName numLines =
           (Content (join [LF] (take (nat numLines) (split_line_breaks str))), s')"
  using assms by (simp add: coda_peek_page_def peek_page_body_def slice_from_start_positive)

text \<open>
  When \<open>numLines\<close> is at least the number of lines, the preview is the whole content,
  every line break a line feed.
\<close>

lemma peek_page_whole_content:
  assumes "getPageContent c s docId pageIdOrName = (Inr (Some str), s')"
    and "str \<noteq> []" and "int (length (split_line_breaks str)) \<le> numLines"
  shows "coda_peek_page c s docId pageIdOrName numLines = (Content (crlf_to_lf str), s')"
proof -
  have "0 < numLines"
    using assms(3) split_line_breaks_not_Nil [of str] by (cases "split_line_breaks str") auto
  moreover have "take (nat numLines) (split_line_breaks str) = split_line_breaks str"
    using assms(3) by simp
  ultimately show ?thesis
    using assms(1,2) by (simp add: peek_page_first_lines join_split_line_breaks)
qed

text \<open>The example of the test suite, and one with both kinds of line break.\<close>

lemma peek_page_example:
  "coda_peek_page (page_with (Inr (Some (''# Title'' @ [LF] @ ''Line 1'' @ [LF] @ ''Line 2''))))
     () ''doc-123'' ''page-456'' 2 = (Content (''# Title'' @ [LF] @ ''Line 1''), ())"
  by (simp add: coda_peek_page_def peek_page_body_def slice_from_start_def page_with_def
      mocked_def LF_def CR_def)

lemma peek_page_mixed_example:
  "coda_peek_page (page_with (Inr (Some (''a'' @ [CR, LF] @ ''b'' @ [LF] @ ''c'' @ [CR] @ ''d''))))
     () ''doc-123'' ''page-456'' 3 = (Content (''a'' @ [LF] @ ''b'' @ [LF] @ ''c'' @ [CR] @ ''d''), ())"
  by (simp add: coda_peek_page_def peek_page_body_def slice_from_start_def page_with_def
      mocked_def LF_def CR_def)

subsection \<open>The query of a listing with a usable token, or with none\<close>

lemma list_pages_call_token:
  "tok \<noteq> [] \<Longrightarrow>
   list_pages_call docId lim (Some tok)
     = \<lparr>lp_docId = docId, query = \<lparr>limit = None, pageToken = Some tok\<rparr>\<rparr>"
  by (simp add: list_pages_call_def listLimit_def nullish_undefined_def)

lemma list_pages_call_no_token:
  "list_pages_call docId lim None
     = \<lparr>lp_docId = docId, query = \<lparr>limit = lim, pageToken = None\<rparr>\<rparr>"
  by (simp add: list_pages_call_def listLimit_def nullish_undefined_def)

subsection \<open>The loop over the updates\<close>

lemma length_attempt_all:
  "length (fst (attempt_all c docId tableIdOrName updates s)) = length updates"
  by (induction updates arbitrary: s) (simp_all add: case_prod_beta)

lemma bulk_loop_recording:
  "bulk_loop (recording c) docId tableIdOrName updates rs (s, log) =
     (case attempt_all c docId tableIdOrName updates s of
        (settled, s') \<Rightarrow>
          (rs @ map2 pushed updates settled,
           (s', log @ map2 (update_event docId tableIdOrName) updates settled)))"
proof (induction updates arbitrary: rs s log)
  case Nil
  show ?case by simp
next
  case (Cons update rest)
  show ?case
    by (simp add: Cons.IH updateRow_recording update_event_def case_prod_beta)
qed

lemma success_pushed: "success (pushed update settled) = resolved settled"
  by (cases settled) simp_all

lemma filter_success_pushed:
  "length updates = length settled \<Longrightarrow>
   length (filter (\<lambda>r. success r) (map2 pushed updates settled)) = length (filter resolved settled)"
  by (induction updates settled rule: list_induct2) (simp_all add: success_pushed)

lemma filter_not_success_pushed:
  "length updates = length settled \<Longrightarrow>
   length (filter (\<lambda>r. \<not> success r) (map2 pushed updates settled))
     = length (filter (\<lambda>r. \<not> resolved r) settled)"
  by (induction updates settled rule: list_induct2) (simp_all add: success_pushed)

lemma length_bulk_loop:
  "length (fst (bulk_loop c docId tableIdOrName updates rs s)) = length rs + length updates"
  by (induction updates arbitrary: rs s) (auto split: prod.splits)

lemma rowId_pushed: "rowId (pushed update settled) = rowIdOrName update"
  by (cases settled) simp_all

lemma rowId_bulk_loop:
  "map rowId (fst (bulk_loop c docId tableIdOrName updates rs s))
     = map rowId rs @ map rowIdOrName updates"
  by (induction updates arbitrary: rs s) (auto simp add: rowId_pushed split: prod.splits)

lemma length_filter_both:
  "length (filter P xs) + length (filter (\<lambda>x. \<not> P x) xs) = length xs"
  by (induction xs) simp_all

subsection \<open>Duplicating a page whose fetch is rejected\<close>

text \<open>
  When the awaited \<^verbatim>\<open>getPageContent\<close> rejects, the only call made is that fetch
  (\<open>createPage\<close> is not called and the state is the one the fetch left), and the error
  returned carries the message of the fetch's failure.
\<close>

lemma duplicate_page_rejected_fetch_skips_create:
  assumes "getPageContent c s docId pageIdOrName = (Inl err, s')"
  shows "coda_duplicate_page (recording c) (s, log) docId pageIdOrName newName
           = (IsError (''Failed to duplicate page : '' @ error_message err),
              (s', log @ [GetPageContent docId pageIdOrName (Inl err)]))"
  using assms
  by (simp add: coda_duplicate_page_def duplicate_page_body_def getPageContent_recording caught_def)

lemma duplicate_page_rejected_fetch_example:
  "coda_duplicate_page (recording api_down) ((), []) ''doc-123'' ''page-456'' ''Duplicated Page''
     = (IsError ''Failed to duplicate page : Export failed'',
        ((), [GetPageContent ''doc-123'' ''page-456'' (Inl (Error_instance ''Export failed''))]))"
proof -
  have "getPageContent api_down () ''doc-123'' ''page-456''
          = (Inl (Error_instance ''Export failed''), ())"
    by (simp add: api_down_def mocked_def)
  from duplicate_page_rejected_fetch_skips_create [OF this, of "[]" "''Duplicated Page''"]
  show ?thesis by simp
qed

section \<open>The claims\<close>

text \<open>
  C1. For every page whose content resolves and every positive \<open>numLines\<close>,
  \<open>coda_peek_page\<close> returns the first \<open>numLines\<close> lines of what \<open>coda_get_page_content\<close>
  returns, joined by one separator. The code departs from this at the empty content:
  \<open>coda_get_page_content\<close> returns the empty string, whose first line is the empty string,
  and \<open>coda_peek_page\<close> returns an error. (For content that is not empty the property
  holds: \<open>peek_page_first_lines\<close>, \<open>peek_page_whole_content\<close>, \<open>join_split_line_breaks\<close>,
  \<open>split_line_breaks_at_LF\<close>, \<open>split_line_breaks_at_CRLF\<close>.)
\<close>

theorem peek_page_empty_content_not_first_lines:
  "fst (coda_get_page_content (page_with (Inr (Some []))) () ''doc-123'' ''page-456'') = Content []
   \<and> join [LF] (slice_from_start (split_line_breaks []) 1) = []
   \<and> fst (coda_peek_page (page_with (Inr (Some []))) () ''doc-123'' ''page-456'' 1)
       = IsError ''Failed to peek page : Unknown error has occurred''"
  by (simp add: page_with_def mocked_def coda_get_page_content_def get_page_content_body_def
      coda_peek_page_def peek_page_body_def caught_def slice_from_start_def)

text \<open>
  C2. When the export of a page completes with the empty string, content retrieval
  succeeds with the empty string, for \<open>coda_get_page_content\<close> and for \<open>coda_peek_page\<close>.
  The code does so for \<open>coda_get_page_content\<close> only: \<open>coda_peek_page\<close> returns the error
  it returns for content that is \<^verbatim>\<open>undefined\<close>, whatever \<open>numLines\<close> is.
\<close>

theorem empty_content_get_succeeds_peek_fails:
  assumes "getPageContent c s docId pageIdOrName = (Inr (Some []), s')"
  shows "coda_get_page_content c s docId pageIdOrName = (Content [], s')
         \<and> coda_peek_page c s docId pageIdOrName numLines
             = (IsError ''Failed to peek page : Unknown error has occurred'', s')"
  using assms
  by (simp add: coda_get_page_content_def get_page_content_body_def
      coda_peek_page_def peek_page_body_def caught_def)

theorem empty_content_get_succeeds_peek_fails_witness:
  "coda_get_page_content (page_with (Inr (Some []))) () ''doc-123'' ''page-456'' = (Content [], ())
   \<and> coda_peek_page (page_with (Inr (Some []))) () ''doc-123'' ''page-456'' 30
       = (IsError ''Failed to peek page : Unknown error has occurred'', ())"
proof -
  have "getPageContent (page_with (Inr (Some []))) () ''doc-123'' ''page-456''
          = (Inr (Some []), ())"
    by (simp add: page_with_def mocked_def)
  then show ?thesis
    by (rule empty_content_get_succeeds_peek_fails)
qed

text \<open>
  C3. When a continuation token is present the limit sent upstream is unset and the
  cursor is the token; when it is absent the limit is the supplied one and the cursor
  is unset. The code departs from this at the empty token: called with limit 10 and
  the empty string as token, \<open>coda_list_pages\<close> calls \<open>listPages\<close> once, with limit 10 and
  the empty string as page token. (For a token that is not empty, and for no token, the
  rule holds: \<open>list_pages_call_token\<close>, \<open>list_pages_call_no_token\<close>.)
\<close>

theorem list_pages_empty_token_with_limit:
  "coda_list_pages (recording (page_with (Inr None))) ((), []) ''doc-123'' (Some 10) (Some [])
     = (Content ''pages'',
        ((), [ListPages \<lparr>lp_docId = ''doc-123'', query = \<lparr>limit = Some 10, pageToken = Some []\<rparr>\<rparr>
                (Inr ''pages'')]))"
  by (simp add: coda_list_pages_def listPages_recording list_pages_call_def listLimit_def
      nullish_undefined_def page_with_def mocked_def)

text \<open>
  C4. \<open>coda_bulk_update_rows\<close> applies the updates in input order, each on its own: for
  every client, state and list of updates, the calls recorded are one \<open>updateRow\<close> per
  update, in input order, each made in the state the call before left, whatever that call
  settled to; the report holds for each update what its own call settled to (the data
  with \<open>success\<close> true, or the message with \<open>success\<close> false), with the number of updates,
  of resolved calls and of rejected calls; and the handler returns the report, never an
  error. The example A (updated), B (refused), C (updated) is the witness.
\<close>

theorem bulk_update_rows_attempts_every_item:
  "coda_bulk_update_rows (recording c) (s, log) docId tableIdOrName updates =
     (case attempt_all c docId tableIdOrName updates s of
        (settled, s') \<Rightarrow>
          (Content \<lparr>results = map2 pushed updates settled,
                    totalUpdates = length updates,
                    successful = length (filter resolved settled),
                    failed = length (filter (\<lambda>r. \<not> resolved r) settled)\<rparr>,
           (s', log @ map2 (update_event docId tableIdOrName) updates settled)))
   \<and> length (fst (attempt_all c docId tableIdOrName updates s)) = length updates"
proof -
  obtain settled s' where a: "attempt_all c docId tableIdOrName updates s = (settled, s')"
    by (cases "attempt_all c docId tableIdOrName updates s")
  have len: "length updates = length settled"
    using length_attempt_all [of c docId tableIdOrName updates s] a by simp
  have ok: "length (filter (\<lambda>r. success r) (map2 pushed updates settled))
      = length (filter resolved settled)"
    using len by (rule filter_success_pushed)
  have ko: "length (filter (\<lambda>r. \<not> success r) (map2 pushed updates settled))
      = length (filter (\<lambda>r. \<not> resolved r) settled)"
    using len by (rule filter_not_success_pushed)
  show ?thesis
    using a len ok ko
    by (simp add: coda_bulk_update_rows_def bulk_update_rows_body_def bulk_loop_recording)
qed

theorem bulk_update_rows_attempts_every_item_witness:
  "coda_bulk_update_rows (recording row_B_fails) ((), []) ''doc-123'' ''grid-1''
     [\<lparr>rowIdOrName = ''A'', entries = [(''Status'', 1)]\<rparr>,
      \<lparr>rowIdOrName = ''B'', entries = [(''Status'', 2)]\<rparr>,
      \<lparr>rowIdOrName = ''C'', entries = [(''Status'', 3)]\<rparr>] =
     (Content
        \<lparr>results =
           [\<lparr>rowId = ''A'', success = True, data = Some ''updated'', error = None\<rparr>,
            \<lparr>rowId = ''B'', success = False, data = None, error = Some ''Row not found''\<rparr>,
            \<lparr>rowId = ''C'', success = True, data = Some ''updated'', error = None\<rparr>],
         totalUpdates = 3, successful = 2, failed = 1\<rparr>,
      ((),
       [UpdateRow \<lparr>ur_docId = ''doc-123'', ur_tableIdOrName = ''grid-1'', ur_rowIdOrName = ''A'',
                   cells = [\<lparr>column = ''Status'', cell_value = 1\<rparr>]\<rparr> (Inr ''updated''),
        UpdateRow \<lparr>ur_docId = ''doc-123'', ur_tableIdOrName = ''grid-1'', ur_rowIdOrName = ''B'',
                   cells = [\<lparr>column = ''Status'', cell_value = 2\<rparr>]\<rparr>
          (Inl (Error_instance ''Row not found'')),
        UpdateRow \<lparr>ur_docId = ''doc-123'', ur_tableIdOrName = ''grid-1'', ur_rowIdOrName = ''C'',
                   cells = [\<lparr>column = ''Status'', cell_value = 3\<rparr>]\<rparr> (Inr ''updated'')]))"
  using bulk_update_rows_attempts_every_item [of row_B_fails "()" "[]" "''doc-123''" "''grid-1''"
      "[\<lparr>rowIdOrName = ''A'', entries = [(''Status'', 1)]\<rparr>,
        \<lparr>rowIdOrName = ''B'', entries = [(''Status'', 2)]\<rparr>,
        \<lparr>rowIdOrName = ''C'', entries = [(''Status'', 3)]\<rparr>]"]
  by (simp add: row_B_fails_def mocked_def update_event_def update_row_call_def)

text \<open>
  C5. For every list of updates the handler returns a report with one result per
  update, in input order (the row ids of the results are the row ids of the updates),
  whose \<open>totalUpdates\<close> is the number of results and the sum of \<open>successful\<close> and
  \<open>failed\<close>; for the empty list the report has no result and all three counts are zero.
\<close>

theorem bulk_report_counts_consistent:
  "(\<exists>report s'. coda_bulk_update_rows c s docId tableIdOrName updates = (Content report, s')
      \<and> map rowId (results report) = map rowIdOrName updates
      \<and> length (results report) = length updates
      \<and> length (results report) = totalUpdates report
      \<and> totalUpdates report = successful report + failed report)
   \<and> coda_bulk_update_rows c s docId tableIdOrName []
       = (Content \<lparr>results = [], totalUpdates = 0, successful = 0, failed = 0\<rparr>, s)"
proof -
  obtain rs s' where l: "bulk_loop c docId tableIdOrName updates [] s = (rs, s')"
    by (cases "bulk_loop c docId tableIdOrName updates [] s")
  have ids: "map rowId rs = map rowIdOrName updates"
    using rowId_bulk_loop [of c docId tableIdOrName updates "[]" s] l by simp
  have len: "length rs = length updates"
    using length_bulk_loop [of c docId tableIdOrName updates "[]" s] l by simp
  have "length (filter (\<lambda>r. success r) rs) + length (filter (\<lambda>r. \<not> success r) rs) = length rs"
    by (rule length_filter_both)
  with l ids len show ?thesis
    by (simp add: coda_bulk_update_rows_def bulk_update_rows_body_def)
qed

theorem bulk_report_counts_consistent_witness:
  "(\<exists>report s'. coda_bulk_update_rows row_B_fails () ''doc-123'' ''grid-1''
        [\<lparr>rowIdOrName = ''B'', entries = []\<rparr>, \<lparr>rowIdOrName = ''C'', entries = []\<rparr>]
          = (Content report, s')
      \<and> map rowId (results report) = [''B'', ''C'']
      \<and> length (results report) = 2
      \<and> totalUpdates report = 2
      \<and> successful report + failed report = 2)
   \<and> coda_bulk_update_rows row_B_fails () ''doc-123'' ''grid-1'' []
       = (Content \<lparr>results = [], totalUpdates = 0, successful = 0, failed = 0\<rparr>, ())"
  using bulk_report_counts_consistent [of row_B_fails "()" "''doc-123''" "''grid-1''"
      "[\<lparr>rowIdOrName = ''B'', entries = []\<rparr>, \<lparr>rowIdOrName = ''C'', entries = []\<rparr>]"]
  by auto

text \<open>
  C6. In \<open>coda_duplicate_page\<close>, whenever fetching the content of the source page fails,
  \<open>createPage\<close> is not attempted and the error returned names the failure of the fetch.
  A fetch whose result is \<^verbatim>\<open>undefined\<close> is a failed fetch: \<open>coda_get_page_content\<close> and
  \<open>coda_peek_page\<close> both throw on it. The code departs from the claim there:
  \<open>coda_duplicate_page\<close> has no such check, calls \<open>createPage\<close> with \<^verbatim>\<open>undefined\<close> as
  content and returns its response as a success. (When the fetch is rejected the claim
  holds: \<open>duplicate_page_rejected_fetch_skips_create\<close>.)
\<close>

theorem duplicate_page_absent_content_creates_page:
  "coda_get_page_content (page_with (Inr None)) () ''doc-123'' ''page-456''
     = (IsError ''Failed to get page content : Unknown error has occurred'', ())
   \<and> coda_peek_page (page_with (Inr None)) () ''doc-123'' ''page-456'' 1
     = (IsError ''Failed to peek page : Unknown error has occurred'', ())
   \<and> coda_duplicate_page (recording (page_with (Inr None))) ((), [])
        ''doc-123'' ''page-456'' ''Duplicated Page''
     = (Content ''created'',
        ((), [GetPageContent ''doc-123'' ''page-456'' (Inr None),
              CreatePage
                \<lparr>cp_docId = ''doc-123'', cp_name = ''Duplicated Page'', cp_content = None\<rparr>
                (Inr ''created'')]))"
  by (simp add: page_with_def mocked_def coda_get_page_content_def get_page_content_body_def
      coda_peek_page_def peek_page_body_def coda_duplicate_page_def duplicate_page_body_def
      duplicate_page_call_def getPageContent_recording createPage_recording caught_def)

text \<open>
  C7. \<open>coda_get_page_content\<close> returns an error, never a success payload, when fetching
  the content fails (a failed export reaches the handler as the rejection of
  \<^verbatim>\<open>getPageContent\<close>) and when the content fetched is \<^verbatim>\<open>undefined\<close>; in the second case
  the error is the explicit message \<^verbatim>\<open>Unknown error has occurred\<close>.
\<close>

theorem get_page_content_fails_without_content:
  "(getPageContent c s docId pageIdOrName = (Inl err, s') \<longrightarrow>
      coda_get_page_content c s docId pageIdOrName
        = (IsError (''Failed to get page content : '' @ error_message err), s'))
   \<and> (getPageContent c s docId pageIdOrName = (Inr None, s') \<longrightarrow>
      coda_get_page_content c s docId pageIdOrName
        = (IsError ''Failed to get page content : Unknown error has occurred'', s'))"
  by (simp add: coda_get_page_content_def get_page_content_body_def caught_def)

theorem get_page_content_fails_without_content_witness:
  "coda_get_page_content api_down () ''doc-123'' ''page-456''
     = (IsError ''Failed to get page content : Export failed'', ())
   \<and> coda_get_page_content (page_with (Inr None)) () ''doc-123'' ''page-456''
     = (IsError ''Failed to get page content : Unknown error has occurred'', ())"
proof -
  have failed: "getPageContent api_down () ''doc-123'' ''page-456''
          = (Inl (Error_instance ''Export failed''), ())"
    by (simp add: api_down_def mocked_def)
  have absent: "getPageContent (page_with (Inr None)) () ''doc-123'' ''page-456'' = (Inr None, ())"
    by (simp add: page_with_def mocked_def)
  from failed absent
    get_page_content_fails_without_content
      [of api_down "()" "''doc-123''" "''page-456''" "Error_instance ''Export failed''" "()"]
    get_page_content_fails_without_content
      [of "page_with (Inr None)" "()" "''doc-123''" "''page-456''" _ "()"]
  show ?thesis by simp
qed



text \<open>
  C9. Called with the empty string as token, \<open>coda_list_pages\<close> calls \<open>listPages\<close> once,
  with the supplied limit as limit and the empty string as page token: the limit is
  kept because the empty string is not truthy, the token is forwarded because it is not
  nullish.
\<close>

theorem list_pages_empty_token_sends_both:
  "list_pages_call docId lim (Some [])
     = \<lparr>lp_docId = docId, query = \<lparr>limit = lim, pageToken = Some []\<rparr>\<rparr>
   \<and> snd (snd (coda_list_pages (recording c) (s, log) docId lim (Some [])))
     = log @ [ListPages \<lparr>lp_docId = docId, query = \<lparr>limit = lim, pageToken = Some []\<rparr>\<rparr>
               (fst (listPages c s \<lparr>lp_docId = docId, query = \<lparr>limit = lim, pageToken = Some []\<rparr>\<rparr>))]"
  by (simp add: coda_list_pages_def listPages_recording list_pages_call_def listLimit_def
      nullish_undefined_def snd_handler_result)

text \<open>
  C10. In \<open>coda_duplicate_page\<close>, when the content fetched is \<^verbatim>\<open>undefined\<close>, nothing is
  thrown at that step: \<open>createPage\<close> is called with \<^verbatim>\<open>undefined\<close> as content, and when it
  resolves its response is returned as a success; \<open>coda_get_page_content\<close>, on the same
  fetch, returns an error.
\<close>

theorem duplicate_page_undefined_content_still_creates:
  assumes "getPageContent c s docId pageIdOrName = (Inr None, s1)"
    and "createPage c s1 \<lparr>cp_docId = docId, cp_name = newName, cp_content = None\<rparr>
           = (Inr created, s2)"
  shows "coda_duplicate_page (recording c) (s, log) docId pageIdOrName newName
           = (Content created,
              (s2, log @ [GetPageContent docId pageIdOrName (Inr None),
                          CreatePage \<lparr>cp_docId = docId, cp_name = newName, cp_content = None\<rparr>
                            (Inr created)]))
         \<and> coda_get_page_content c s docId pageIdOrName
           = (IsError ''Failed to get page content : Unknown error has occurred'', s1)"
  using assms
  by (simp add: coda_duplicate_page_def duplicate_page_body_def getPageContent_recording
      createPage_recording duplicate_page_call_def coda_get_page_content_def
      get_page_content_body_def caught_def)

theorem duplicate_page_undefined_content_still_creates_witness:
  "coda_duplicate_page (recording (page_with (Inr None))) ((), []) ''doc-123'' ''page-456'' ''Copy''
     = (Content ''created'',
        ((), [GetPageContent ''doc-123'' ''page-456'' (Inr None),
              CreatePage \<lparr>cp_docId = ''doc-123'', cp_name = ''Copy'', cp_content = None\<rparr>
                (Inr ''created'')]))
   \<and> coda_get_page_content (page_with (Inr None)) () ''doc-123'' ''page-456''
     = (IsError ''Failed to get page content : Unknown error has occurred'', ())"
proof -
  have r: "getPageContent (page_with (Inr None)) () ''doc-123'' ''page-456'' = (Inr None, ())"
    by (simp add: page_with_def mocked_def)
  have a: "createPage (page_with (Inr None)) ()
             \<lparr>cp_docId = ''doc-123'', cp_name = ''Copy'', cp_content = None\<rparr> = (Inr ''created'', ())"
    by (simp add: page_with_def mocked_def)
  from duplicate_page_undefined_content_still_creates [OF r a, of "[]"]
  show ?thesis by simp
qed

end
